theory Spec2Isabelle
  imports
    Main
    "HOL-Library.Sublist"
    "HOL-Library.AList"
    "HOL-Library.Char_ord"
    "HOL-Library.List_Lexorder"
begin

section \<open>The artifact manager of \<^verbatim>\<open>utils/config_manager.py\<close>\<close>

text \<open>
  The module keeps configuration files, data artifacts and figures of an experiment below
  one root directory, read once from the environment variable \<^verbatim>\<open>NEW_DATA_PATH\<close>. Every
  function of the module is embedded as a function from the file system before the call to
  the outcome of the call (a Python exception or the returned value) paired with the file
  system after the call, so that what a failing call leaves behind is part of the model.
  The informational \<^verbatim>\<open>print\<close> calls guarded by \<^verbatim>\<open>verbose\<close> have no effect on
  results or files and are left out, and so are \<^verbatim>\<open>print_config\<close> and the keyword
  arguments that the functions hand on to the libraries.
\<close>

subsection \<open>Exceptions\<close>

datatype error =
    KeyError string
  | TypeError
  | ValueError string
  | FileNotFoundError
  | FileExistsError
  | NotADirectoryError
  | IsADirectoryError
  | PicklingError
  | UnpicklingError
  | YAMLError
  | ParserError

text \<open>The two messages of the \<^verbatim>\<open>raise ValueError(...)\<close> statements of the module.\<close>

definition msg_no_to_csv :: string where
  "msg_no_to_csv =
     ''Data does not have a '' @ [CHR 0x27] @ ''to_csv'' @ [CHR 0x27] @ '' method.''"

definition msg_unsupported_format :: string where
  "msg_unsupported_format =
     ''Unsupported data format. Use '' @ [CHR 0x27] @ ''pkl'' @ [CHR 0x27] @ '' or ''
       @ [CHR 0x27] @ ''csv'' @ [CHR 0x27] @ ''.''"

subsection \<open>Dictionaries\<close>

text \<open>
  \<^verbatim>\<open>notebook_config\<close> is a dictionary; the module reads its keys \<^verbatim>\<open>name\<close> and
  \<^verbatim>\<open>version\<close> and uses both values as text, so the model takes string values.
  \<open>dict_getitem d k\<close> is \<^verbatim>\<open>d[k]\<close> and \<open>dict_get d k dflt\<close> is
  \<^verbatim>\<open>d.get(k, default)\<close>.
\<close>

type_synonym notebook_config = "string \<rightharpoonup> string"

definition dict_getitem :: "notebook_config \<Rightarrow> string \<Rightarrow> error + string" where
  "dict_getitem d k = (case d k of None \<Rightarrow> Inl (KeyError k) | Some v \<Rightarrow> Inr v)"

definition dict_get :: "notebook_config \<Rightarrow> string \<Rightarrow> string \<Rightarrow> string" where
  "dict_get d k dflt = (case d k of None \<Rightarrow> dflt | Some v \<Rightarrow> v)"

subsection \<open>Path strings\<close>

text \<open>
  \<^verbatim>\<open>os.path.join\<close> of \<^verbatim>\<open>posixpath\<close>: a component that starts with the separator
  replaces what was joined so far, otherwise it is appended, after a separator unless the
  path so far is empty or already ends with one. A first argument \<^verbatim>\<open>None\<close> (the
  environment variable was not set) makes \<^verbatim>\<open>os.fspath\<close> raise \<^verbatim>\<open>TypeError\<close>.
\<close>

definition join_step :: "string \<Rightarrow> string \<Rightarrow> string" where
  "join_step path b =
     (if prefix ''/'' b then b
      else if path = [] \<or> last path = CHR ''/'' then path @ b
      else path @ ''/'' @ b)"

definition path_join :: "string \<Rightarrow> string list \<Rightarrow> string" where
  "path_join a ps = foldl join_step a ps"

definition os_path_join :: "string option \<Rightarrow> string list \<Rightarrow> error + string" where
  "os_path_join a ps = (case a of None \<Rightarrow> Inl TypeError | Some a' \<Rightarrow> Inr (path_join a' ps))"

text \<open>
  The operating system walks a path string component by component: \<open>split_path\<close> cuts it
  at the separators and drops empty components, so repeated and trailing separators are
  ignored. Relative paths are taken from the top of the modelled tree; symbolic links and
  the entries \<^verbatim>\<open>.\<close> and \<^verbatim>\<open>..\<close> are not modelled.
\<close>

function split_path :: "string \<Rightarrow> string list" where
  "split_path [] = []"
| "split_path (c # cs) =
     (if c = CHR ''/'' then split_path cs
      else (c # takeWhile (\<lambda>x. x \<noteq> CHR ''/'') cs)
             # split_path (dropWhile (\<lambda>x. x \<noteq> CHR ''/'') cs))"
  by pat_completeness auto
termination
  by (relation "measure length") (auto simp: le_imp_less_Suc length_dropWhile_le)

subsection \<open>Values written to files\<close>

text \<open>
  \<^verbatim>\<open>data: any\<close>. The module asks two things of the object: whether it has a
  \<^verbatim>\<open>to_csv\<close> method (\<^verbatim>\<open>hasattr(data, 'to_csv')\<close>) and, through
  \<^verbatim>\<open>pickle.dump\<close>, whether it can be pickled. Both are fields of the model of an object.
\<close>

datatype 'a pyobj = PyObj (payload: 'a) (has_to_csv: bool) (picklable: bool)

text \<open>
  A configuration document: a nested mapping whose keys keep their insertion order, as a
  Python \<^verbatim>\<open>dict\<close> does. Floating-point numbers and Python-specific objects are outside
  the model.
\<close>

datatype yaml =
    YNull
  | YBool bool
  | YInt int
  | YStr string
  | YSeq "yaml list"
  | YMap "(string \<times> yaml) list"

text \<open>
  The serialisation libraries (PyYAML, pickle, pandas, matplotlib) are not part of the
  repository. A file is modelled by what was written to it, tagged with the writer: the
  byte encodings themselves are not modelled, and a reader applied to a file of another
  writer fails. \<open>Truncated\<close> is the file left by \<^verbatim>\<open>open(path, 'wb')\<close> when
  \<^verbatim>\<open>pickle.dump\<close> then raises.
\<close>

datatype 'a content =
    Pickle "'a pyobj"
  | Truncated
  | CsvText 'a
  | YamlText yaml
  | Figure 'a string

text \<open>
  What \<^verbatim>\<open>load_data\<close> returns: the unpickled object, or the frame that
  \<^verbatim>\<open>pandas.read_csv\<close> parses from CSV text (not the object that was exported).
\<close>

datatype 'a loaded = Unpickled "'a pyobj" | ParsedCsv 'a

text \<open>
  \<^verbatim>\<open>yaml.dump(config, f, sort_keys=...)\<close>: with \<^verbatim>\<open>sort_keys=True\<close> (PyYAML's
  default) the keys of every mapping are written in sorted order, with
  \<^verbatim>\<open>sort_keys=False\<close> in the order of the dictionary.
\<close>

primrec sort_doc :: "yaml \<Rightarrow> yaml" where
  "sort_doc YNull = YNull"
| "sort_doc (YBool b) = YBool b"
| "sort_doc (YInt i) = YInt i"
| "sort_doc (YStr s) = YStr s"
| "sort_doc (YSeq xs) = YSeq (map sort_doc xs)"
| "sort_doc (YMap kvs) = YMap (sort_key fst (map (map_prod id sort_doc) kvs))"

definition yaml_dump :: "yaml \<Rightarrow> bool \<Rightarrow> 'a content" where
  "yaml_dump config sort_keys = YamlText (if sort_keys then sort_doc config else config)"

definition yaml_safe_load :: "'a content \<Rightarrow> error + yaml" where
  "yaml_safe_load c = (case c of YamlText d \<Rightarrow> Inr d | _ \<Rightarrow> Inl YAMLError)"

definition pickle_load :: "'a content \<Rightarrow> error + 'a loaded" where
  "pickle_load c = (case c of Pickle x \<Rightarrow> Inr (Unpickled x) | _ \<Rightarrow> Inl UnpicklingError)"

definition pd_read_csv :: "'a content \<Rightarrow> error + 'a loaded" where
  "pd_read_csv c = (case c of CsvText t \<Rightarrow> Inr (ParsedCsv t) | _ \<Rightarrow> Inl ParserError)"

subsection \<open>The file system\<close>

text \<open>
  A directory tree: a node is a regular file with its content or a directory with its
  entries, in the order \<^verbatim>\<open>os.listdir\<close> reports them. The file system is the node of
  the top directory.
\<close>

datatype 'a node = File "'a content" | Dir "(string \<times> 'a node) list"

fun lookup :: "'a node \<Rightarrow> string list \<Rightarrow> 'a node option" where
  "lookup n [] = Some n"
| "lookup (File c) (s # ss) = None"
| "lookup (Dir es) (s # ss) = (case map_of es s of None \<Rightarrow> None | Some m \<Rightarrow> lookup m ss)"

text \<open>The regular file at a path, if there is one.\<close>

definition file_at :: "'a node \<Rightarrow> string list \<Rightarrow> 'a content option" where
  "file_at n p = (case lookup n p of Some (File c) \<Rightarrow> Some c | _ \<Rightarrow> None)"

definition is_dir :: "'a node \<Rightarrow> string list \<Rightarrow> bool" where
  "is_dir n p = (case lookup n p of Some (Dir es) \<Rightarrow> True | _ \<Rightarrow> False)"

text \<open>
  \<^verbatim>\<open>os.makedirs(path, exist_ok=True)\<close> along the components of the path: missing
  directories are created, existing ones are entered, and a regular file in the way is an
  error (\<^verbatim>\<open>FileExistsError\<close> when it is the last component).
\<close>

fun mkdir_p :: "string list \<Rightarrow> 'a node \<Rightarrow> error + 'a node" where
  "mkdir_p [] (Dir es) = Inr (Dir es)"
| "mkdir_p [] (File c) = Inl FileExistsError"
| "mkdir_p (s # ss) (File c) = Inl NotADirectoryError"
| "mkdir_p (s # ss) (Dir es) =
     (case mkdir_p ss (case map_of es s of None \<Rightarrow> Dir [] | Some n \<Rightarrow> n) of
        Inl e \<Rightarrow> Inl e
      | Inr m \<Rightarrow> Inr (Dir (AList.update s m es)))"

text \<open>
  Opening a path for writing and writing the content: the parent directory must exist,
  the path must not be a directory; an existing file is replaced, a missing one created.
\<close>

fun write_at :: "string list \<Rightarrow> 'a content \<Rightarrow> 'a node \<Rightarrow> error + 'a node" where
  "write_at [] c (File c') = Inr (File c)"
| "write_at [] c (Dir es) = Inl IsADirectoryError"
| "write_at (s # ss) c (File c') = Inl NotADirectoryError"
| "write_at (s # ss) c (Dir es) =
     (case map_of es s of
        None \<Rightarrow>
          if ss = [] then Inr (Dir (AList.update s (File c) es)) else Inl FileNotFoundError
      | Some n \<Rightarrow>
          (case write_at ss c n of
             Inl e \<Rightarrow> Inl e
           | Inr m \<Rightarrow> Inr (Dir (AList.update s m es))))"

fun read_at :: "string list \<Rightarrow> 'a node \<Rightarrow> error + 'a content" where
  "read_at [] (File c) = Inr c"
| "read_at [] (Dir es) = Inl IsADirectoryError"
| "read_at (s # ss) (File c) = Inl NotADirectoryError"
| "read_at (s # ss) (Dir es) =
     (case map_of es s of None \<Rightarrow> Inl FileNotFoundError | Some n \<Rightarrow> read_at ss n)"

text \<open>\<^verbatim>\<open>os.remove\<close> deletes a regular file and refuses a directory.\<close>

fun remove_at :: "string list \<Rightarrow> 'a node \<Rightarrow> error + 'a node" where
  "remove_at [] n = Inl IsADirectoryError"
| "remove_at (s # ss) (File c) = Inl NotADirectoryError"
| "remove_at (s # ss) (Dir es) =
     (case map_of es s of
        None \<Rightarrow> Inl FileNotFoundError
      | Some n \<Rightarrow>
          if ss = [] then
            (case n of
               File c \<Rightarrow> Inr (Dir (AList.delete s es))
             | Dir es' \<Rightarrow> Inl IsADirectoryError)
          else
            (case remove_at ss n of
               Inl e \<Rightarrow> Inl e
             | Inr m \<Rightarrow> Inr (Dir (AList.update s m es))))"


subsection \<open>Calls that can raise and change the file system\<close>

type_synonym ('r, 'a) io = "'a node \<Rightarrow> (error + 'r) \<times> 'a node"

definition return :: "'r \<Rightarrow> ('r, 'a) io" where
  "return x fs = (Inr x, fs)"

definition raise :: "error \<Rightarrow> ('r, 'a) io" where
  "raise e fs = (Inl e, fs)"

definition lift :: "error + 'r \<Rightarrow> ('r, 'a) io" where
  "lift v fs = (v, fs)"

text \<open>Sequencing: an exception of the first call ends the sequence, keeping its file system.\<close>

definition and_then :: "('r, 'a) io \<Rightarrow> ('r \<Rightarrow> ('s, 'a) io) \<Rightarrow> ('s, 'a) io" where
  "and_then m f fs = (case m fs of (Inl e, fs') \<Rightarrow> (Inl e, fs') | (Inr x, fs') \<Rightarrow> f x fs')"

text \<open>
  The system calls on path strings. The empty string names no file: every call on it
  fails and \<^verbatim>\<open>os.path.exists('')\<close> is false.
\<close>

definition os_path_exists :: "string \<Rightarrow> 'a node \<Rightarrow> bool" where
  "os_path_exists p fs = (p \<noteq> [] \<and> lookup fs (split_path p) \<noteq> None)"

definition os_makedirs :: "string \<Rightarrow> (unit, 'a) io" where
  "os_makedirs p fs =
     (if p = [] then (Inl FileNotFoundError, fs)
      else case mkdir_p (split_path p) fs of
             Inl e \<Rightarrow> (Inl e, fs)
           | Inr fs' \<Rightarrow> (Inr (), fs'))"

definition open_write :: "string \<Rightarrow> 'a content \<Rightarrow> (unit, 'a) io" where
  "open_write p c fs =
     (if p = [] then (Inl FileNotFoundError, fs)
      else case write_at (split_path p) c fs of
             Inl e \<Rightarrow> (Inl e, fs)
           | Inr fs' \<Rightarrow> (Inr (), fs'))"

definition open_read :: "string \<Rightarrow> ('a content, 'a) io" where
  "open_read p fs = (if p = [] then Inl FileNotFoundError else read_at (split_path p) fs, fs)"

definition os_listdir :: "string \<Rightarrow> (string list, 'a) io" where
  "os_listdir p fs =
     (if p = [] then Inl FileNotFoundError
      else case lookup fs (split_path p) of
             None \<Rightarrow> Inl FileNotFoundError
           | Some (File c) \<Rightarrow> Inl NotADirectoryError
           | Some (Dir es) \<Rightarrow> Inr (map fst es),
      fs)"

definition os_remove :: "string \<Rightarrow> (unit, 'a) io" where
  "os_remove p fs =
     (if p = [] then (Inl FileNotFoundError, fs)
      else case remove_at (split_path p) fs of
             Inl e \<Rightarrow> (Inl e, fs)
           | Inr fs' \<Rightarrow> (Inr (), fs'))"

text \<open>
  \<^verbatim>\<open>with open(path, 'wb') as f: pickle.dump(data, f)\<close>: the file is opened (and so
  created or emptied) before the object is pickled. \<^verbatim>\<open>data.to_csv(path)\<close> and
  \<^verbatim>\<open>fig.savefig(path, format=...)\<close> write their output to the path; the checks these
  library calls make on their own arguments are not modelled.
\<close>

definition pickle_dump :: "'a pyobj \<Rightarrow> string \<Rightarrow> (unit, 'a) io" where
  "pickle_dump data p =
     (if picklable data then open_write p (Pickle data)
      else and_then (open_write p Truncated) (\<lambda>_. raise PicklingError))"

definition to_csv :: "'a pyobj \<Rightarrow> string \<Rightarrow> (unit, 'a) io" where
  "to_csv data p = open_write p (CsvText (payload data))"

definition savefig :: "'a \<Rightarrow> string \<Rightarrow> string \<Rightarrow> (unit, 'a) io" where
  "savefig fig p fmt = open_write p (Figure fig fmt)"


subsection \<open>The functions of the module\<close>

text \<open>
  The module-level \<^verbatim>\<open>new_path = os.getenv("NEW_DATA_PATH")\<close> is \<^verbatim>\<open>None\<close> when the
  variable is not set; every function reads it, so it is the first argument of each.
\<close>

definition load_configs :: "string option \<Rightarrow> string \<Rightarrow> string \<Rightarrow> (yaml, 'a) io" where
  "load_configs new_path folder_name config_suffix =
     and_then (lift (os_path_join new_path [folder_name, ''config_'' @ config_suffix @ ''.yml'']))
       (\<lambda>config_path.
     and_then (open_read config_path) (\<lambda>f. lift (yaml_safe_load f)))"

definition save_configs :: "string option \<Rightarrow> string \<Rightarrow> yaml \<Rightarrow> string \<Rightarrow> (unit, 'a) io" where
  "save_configs new_path folder_name config config_suffix =
     and_then (lift (os_path_join new_path [folder_name, ''config_'' @ config_suffix @ ''.yml'']))
       (\<lambda>config_path.
     open_write config_path (yaml_dump config False))"

definition initialise_config :: "string option \<Rightarrow> string \<Rightarrow> (unit, 'a) io" where
  "initialise_config new_path folder_name =
     and_then (lift (os_path_join new_path [folder_name])) (\<lambda>folder_path fs.
       if \<not> os_path_exists folder_path fs then
         and_then (os_makedirs folder_path) (\<lambda>_.
         and_then (os_makedirs (path_join folder_path [''data''])) (\<lambda>_.
         os_makedirs (path_join folder_path [''figures'']))) fs
       else return () fs)"

definition save_figure ::
  "string option \<Rightarrow> notebook_config \<Rightarrow> 'a \<Rightarrow> string \<Rightarrow> string \<Rightarrow> (unit, 'a) io" where
  "save_figure new_path notebook_config fig fig_name fig_format =
     and_then (lift (dict_getitem notebook_config ''name'')) (\<lambda>folder_name.
     let config_version = dict_get notebook_config ''version'' ''v1'' in
     and_then (lift (os_path_join new_path [folder_name, ''figures''])) (\<lambda>figures_path.
     and_then (\<lambda>fs. if \<not> os_path_exists figures_path fs then os_makedirs figures_path fs
                     else return () fs) (\<lambda>_.
     let fig_path =
           path_join figures_path [config_version @ ''_'' @ fig_name @ ''.'' @ fig_format]
     in savefig fig fig_path fig_format)))"

definition save_data ::
  "string option \<Rightarrow> notebook_config \<Rightarrow> 'a pyobj \<Rightarrow> string \<Rightarrow> string \<Rightarrow> (unit, 'a) io" where
  "save_data new_path notebook_config data data_name data_format =
     and_then (lift (dict_getitem notebook_config ''name'')) (\<lambda>folder_name.
     let config_version = dict_get notebook_config ''version'' ''v1'' in
     and_then (lift (os_path_join new_path [folder_name, ''data''])) (\<lambda>data_path.
     and_then (\<lambda>fs. if \<not> os_path_exists data_path fs then os_makedirs data_path fs
                     else return () fs) (\<lambda>_.
     let data_file_path =
           path_join data_path [config_version @ ''_'' @ data_name @ ''.'' @ data_format]
     in if data_format = ''pkl'' then pickle_dump data data_file_path
        else if data_format = ''csv'' then
          (if has_to_csv data then to_csv data data_file_path
           else raise (ValueError msg_no_to_csv))
        else raise (ValueError msg_unsupported_format))))"

text \<open>
  The loop \<^verbatim>\<open>for file in os.listdir(path): if file.startswith(config_version + "_"):
  os.remove(os.path.join(path, file))\<close>, over the listing taken before the loop.
\<close>

fun remove_versioned :: "string \<Rightarrow> string \<Rightarrow> string list \<Rightarrow> (unit, 'a) io" where
  "remove_versioned path config_version [] fs = (Inr (), fs)"
| "remove_versioned path config_version (file # files) fs =
     (if prefix (config_version @ ''_'') file then
        (case os_remove (path_join path [file]) fs of
           (Inl e, fs') \<Rightarrow> (Inl e, fs')
         | (Inr u, fs') \<Rightarrow> remove_versioned path config_version files fs')
      else remove_versioned path config_version files fs)"

text \<open>
  The block \<^verbatim>\<open>if os.path.exists(path): for file in os.listdir(path): ...\<close>, which the
  function below contains twice, once for the data directory and once for the figures
  directory.
\<close>

definition clear_versioned :: "string \<Rightarrow> string \<Rightarrow> (unit, 'a) io" where
  "clear_versioned path config_version fs =
     (if os_path_exists path fs then
        and_then (os_listdir path) (remove_versioned path config_version) fs
      else return () fs)"

text \<open>
  After the early return for two false flags, neither block of the source is guarded by
  its flag: \<^verbatim>\<open>data\<close> and \<^verbatim>\<open>figure\<close> are not read again.
\<close>

definition clear_data_and_figure ::
  "string option \<Rightarrow> notebook_config \<Rightarrow> bool \<Rightarrow> bool \<Rightarrow> (unit, 'a) io" where
  "clear_data_and_figure new_path notebook_config data figure =
     (if \<not> data \<and> \<not> figure then return ()
      else
        and_then (lift (dict_getitem notebook_config ''name'')) (\<lambda>folder_name.
        let config_version = dict_get notebook_config ''version'' ''v1'' in
        and_then (lift (os_path_join new_path [folder_name, ''data''])) (\<lambda>data_path.
        and_then (clear_versioned data_path config_version) (\<lambda>_.
        and_then (lift (os_path_join new_path [folder_name, ''figures''])) (\<lambda>figures_path.
        clear_versioned figures_path config_version)))))"

definition load_data ::
  "string option \<Rightarrow> notebook_config \<Rightarrow> string \<Rightarrow> string \<Rightarrow> ('a loaded, 'a) io" where
  "load_data new_path notebook_config data_name data_format =
     and_then (lift (dict_getitem notebook_config ''name'')) (\<lambda>folder_name.
     let config_version = dict_get notebook_config ''version'' ''v1'' in
     and_then (lift (os_path_join new_path [folder_name, ''data''])) (\<lambda>data_path.
     let data_file_path =
           path_join data_path [config_version @ ''_'' @ data_name @ ''.'' @ data_format]
     in (\<lambda>fs.
          if \<not> os_path_exists data_file_path fs then raise FileNotFoundError fs
          else if data_format = ''pkl'' then
            and_then (open_read data_file_path) (\<lambda>f. lift (pickle_load f)) fs
          else if data_format = ''csv'' then
            and_then (open_read data_file_path) (\<lambda>f. lift (pd_read_csv f)) fs
          else raise (ValueError msg_unsupported_format) fs)))"

subsection \<open>A small experiment folder\<close>

text \<open>
  Concrete inputs on which the theorems below are evaluated: the notebook configuration
  of experiment \<^verbatim>\<open>exp1\<close> at version \<^verbatim>\<open>v1\<close>, a root directory
  \<^verbatim>\<open>/tmp/root\<close> before and after \<^verbatim>\<open>initialise_config\<close>, and a folder
  that holds data of two versions and one figure.
\<close>

definition example_config :: notebook_config where
  "example_config = [''name'' \<mapsto> ''exp1'', ''version'' \<mapsto> ''v1'']"

definition fresh_fs :: "nat node" where
  "fresh_fs = Dir [(''tmp'', Dir [(''root'', Dir [])])]"

definition initialised_fs :: "nat node" where
  "initialised_fs =
     Dir [(''tmp'', Dir [(''root'', Dir [(''exp1'',
       Dir [(''data'', Dir []), (''figures'', Dir [])])])])]"

definition example_fs :: "nat node" where
  "example_fs =
     Dir [(''tmp'', Dir [(''root'', Dir [(''exp1'',
       Dir [(''data'',
              Dir [(''v1_a.pkl'', File (Pickle (PyObj 1 False True))),
                   (''v2_a.pkl'', File (Pickle (PyObj 2 False True)))]),
            (''figures'',
              Dir [(''v1_plot.png'', File (Figure 7 ''png''))])])])])]"

definition example_doc :: yaml where
  "example_doc =
     YMap [(''notebook'', YMap [(''name'', YStr ''exp1''), (''version'', YStr ''v1'')]),
           (''exp'', YMap [(''steps'', YInt 100), (''model'', YStr ''lv.xml''),
                           (''species'', YSeq [YStr ''x'', YStr ''y''])])]"

section \<open>Facts about paths and the file system\<close>

subsection \<open>Unfolding the sequencing combinators\<close>

lemmas io_defs = return_def raise_def lift_def and_then_def

subsection \<open>Regular files under the tree operations\<close>

lemma file_at_Nil: "file_at n [] = (case n of File c \<Rightarrow> Some c | Dir es \<Rightarrow> None)"
  by (simp add: file_at_def split: node.splits)

lemma file_at_File_Cons: "file_at (File c) (s # ss) = None"
  by (simp add: file_at_def)

lemma file_at_Dir_Cons:
  "file_at (Dir es) (s # ss) = (case map_of es s of None \<Rightarrow> None | Some m \<Rightarrow> file_at m ss)"
  by (simp add: file_at_def split: option.splits)

lemmas file_at_simps = file_at_Nil file_at_File_Cons file_at_Dir_Cons

lemma file_at_empty_Dir: "file_at (Dir []) q = None"
  by (cases q) (simp_all add: file_at_simps)



lemma file_at_mkdir_p:
  "mkdir_p p n = Inr n' \<Longrightarrow> file_at n' q = file_at n q"
proof (induction p n arbitrary: n' q rule: mkdir_p.induct)
  case (4 s ss es)
  show ?case
  proof (cases q)
    case Nil
    with 4 show ?thesis by (auto simp: file_at_simps split: sum.splits)
  next
    case (Cons t ts)
    with 4 show ?thesis
      by (auto simp: file_at_simps update_conv' file_at_empty_Dir split: option.splits sum.splits)
  qed
qed simp_all

lemma is_dir_mkdir_p: "mkdir_p p n = Inr n' \<Longrightarrow> is_dir n' p"
  by (induction p n arbitrary: n' rule: mkdir_p.induct)
     (auto simp: is_dir_def update_conv' split: sum.splits option.splits)

lemma lookup_mkdir_p_mono:
  "mkdir_p p n = Inr n' \<Longrightarrow> lookup n q \<noteq> None \<Longrightarrow> lookup n' q \<noteq> None"
proof (induction p n arbitrary: n' q rule: mkdir_p.induct)
  case (4 s ss es)
  show ?case
  proof (cases q)
    case Nil
    then show ?thesis by simp
  next
    case (Cons t ts)
    with 4 show ?thesis
      by (auto simp: update_conv' split: option.splits sum.splits)
  qed
qed simp_all

lemma read_at_write_at: "write_at p c n = Inr n' \<Longrightarrow> read_at p n' = Inr c"
  by (induction p c n arbitrary: n' rule: write_at.induct)
     (auto simp: update_conv' split: sum.splits option.splits if_splits)

lemma lookup_write_at: "write_at p c n = Inr n' \<Longrightarrow> lookup n' p = Some (File c)"
  by (induction p c n arbitrary: n' rule: write_at.induct)
     (auto simp: update_conv' split: sum.splits option.splits if_splits)

subsection \<open>Splitting joined paths\<close>

lemma takeWhile_no_sep:
  "CHR ''/'' \<notin> set cs \<Longrightarrow> takeWhile (\<lambda>x. x \<noteq> CHR ''/'') cs = cs"
  by (induction cs) auto

lemma dropWhile_no_sep:
  "CHR ''/'' \<notin> set cs \<Longrightarrow> dropWhile (\<lambda>x. x \<noteq> CHR ''/'') cs = []"
  by (induction cs) auto

lemma split_path_append_sep:
  "split_path (x @ CHR ''/'' # y) = split_path x @ split_path y"
proof (induction x rule: split_path.induct)
  case 1
  show ?case by simp
next
  case (2 c cs)
  show ?case
  proof (cases "c = CHR ''/''")
    case True
    with 2 show ?thesis by simp
  next
    case False
    show ?thesis
    proof (cases "\<forall>x\<in>set cs. x \<noteq> CHR ''/''")
      case True
      then have "CHR ''/'' \<notin> set cs" by auto
      with False show ?thesis
        by (simp add: takeWhile_append dropWhile_append takeWhile_no_sep dropWhile_no_sep)
    next
      case nall: False
      with False 2(2) show ?thesis
        by (auto simp: takeWhile_append dropWhile_append)
    qed
  qed
qed

lemma split_path_snoc_sep: "split_path (x @ ''/'') = split_path x"
  using split_path_append_sep [of x "[]"] by simp

lemma split_path_join_step:
  "split_path (join_step p b) =
     (if prefix ''/'' b then split_path b else split_path p @ split_path b)"
proof (cases "prefix ''/'' b")
  case True
  then show ?thesis by (simp add: join_step_def)
next
  case False
  show ?thesis
  proof (cases "p = [] \<or> last p = CHR ''/''")
    case True
    then show ?thesis
    proof
      assume "p = []"
      with False show ?thesis by (simp add: join_step_def)
    next
      assume l: "last p = CHR ''/''"
      show ?thesis
      proof (cases "p = []")
        case True
        with False show ?thesis by (simp add: join_step_def)
      next
        case ne: False
        then have p: "p = butlast p @ ''/''" using l
          by (metis append_butlast_last_id)
        have "split_path (p @ b) = split_path (butlast p @ CHR ''/'' # b)"
          by (subst p) simp
        also have "\<dots> = split_path (butlast p) @ split_path b"
          by (rule split_path_append_sep)
        also have "split_path (butlast p) = split_path p"
          using split_path_snoc_sep [of "butlast p"] p by simp
        finally show ?thesis using False l ne by (simp add: join_step_def)
      qed
    qed
  next
    case nsep: False
    with False show ?thesis
      using split_path_append_sep [of p b] by (simp add: join_step_def)
  qed
qed

lemma split_path_segment:
  "s \<noteq> [] \<Longrightarrow> CHR ''/'' \<notin> set s \<Longrightarrow> split_path s = [s]"
proof (cases s)
  case Nil
  assume "s \<noteq> []" with Nil show ?thesis by simp
next
  case (Cons c cs)
  assume "CHR ''/'' \<notin> set s"
  with Cons have "c \<noteq> CHR ''/''" and "CHR ''/'' \<notin> set cs" by auto
  with Cons show ?thesis by (simp add: takeWhile_no_sep dropWhile_no_sep)
qed

lemma split_path_join_segment:
  "s \<noteq> [] \<Longrightarrow> CHR ''/'' \<notin> set s \<Longrightarrow> split_path (path_join p [s]) = split_path p @ [s]"
  by (cases s) (auto simp: path_join_def split_path_join_step takeWhile_no_sep dropWhile_no_sep)

lemma path_join_two: "path_join r [a, b] = path_join (path_join r [a]) [b]"
  by (simp add: path_join_def)

lemma join_step_nonempty: "b \<noteq> [] \<Longrightarrow> join_step p b \<noteq> []"
  by (auto simp: join_step_def)

lemma path_join_nonempty: "b \<noteq> [] \<Longrightarrow> path_join p [b] \<noteq> []"
  by (simp add: path_join_def join_step_nonempty)

subsection \<open>The system calls\<close>

lemma os_path_exists_after_makedirs:
  assumes "os_makedirs p fs = (Inr (), fs')"
  shows "os_path_exists p fs'" and "is_dir fs' (split_path p)"
proof -
  from assms have ne: "p \<noteq> []" and m: "mkdir_p (split_path p) fs = Inr fs'"
    by (auto simp: os_makedirs_def split: if_splits sum.splits)
  from is_dir_mkdir_p [OF m] show "is_dir fs' (split_path p)" .
  then show "os_path_exists p fs'"
    using ne by (auto simp: os_path_exists_def is_dir_def split: option.splits)
qed

lemma os_path_exists_makedirs_mono:
  assumes "os_makedirs p fs = (Inr (), fs')" and "os_path_exists q fs"
  shows "os_path_exists q fs'"
proof -
  from assms(1) have m: "mkdir_p (split_path p) fs = Inr fs'"
    by (auto simp: os_makedirs_def split: if_splits sum.splits)
  from assms(2) lookup_mkdir_p_mono [OF m] show ?thesis
    by (auto simp: os_path_exists_def)
qed

lemma os_makedirs_cases:
  obtains e where "os_makedirs p fs = (Inl e, fs)" | fs' where "os_makedirs p fs = (Inr (), fs')"
  by (cases "mkdir_p (split_path p) fs"; cases "p = []") (auto simp: os_makedirs_def)

lemma mkdir_p_error:
  "mkdir_p p n = Inl e \<Longrightarrow> e = FileExistsError \<or> e = NotADirectoryError"
  by (induction p n rule: mkdir_p.induct) (auto split: sum.splits)

lemma os_makedirs_error:
  "os_makedirs p fs = (Inl e, fs') \<Longrightarrow>
     e = FileNotFoundError \<or> e = FileExistsError \<or> e = NotADirectoryError"
  by (auto simp: os_makedirs_def dest: mkdir_p_error split: if_splits sum.splits)

lemma file_at_os_makedirs: "file_at (snd (os_makedirs p fs)) q = file_at fs q"
  by (auto simp: os_makedirs_def file_at_mkdir_p split: sum.splits)

lemma open_write_then_read:
  assumes "open_write p c fs = (Inr (), fs')"
  shows "open_read p fs' = (Inr c, fs')" and "os_path_exists p fs'"
proof -
  from assms have ne: "p \<noteq> []" and w: "write_at (split_path p) c fs = Inr fs'"
    by (auto simp: open_write_def split: if_splits sum.splits)
  show "open_read p fs' = (Inr c, fs')"
    using ne read_at_write_at [OF w] by (simp add: open_read_def)
  show "os_path_exists p fs'"
    using ne lookup_write_at [OF w] by (simp add: os_path_exists_def)
qed

subsection \<open>Entry names and removal\<close>











subsection \<open>Calls that leave a file alone\<close>










subsection \<open>Writes that succeed\<close>

lemma write_at_succeeds:
  "is_dir n d \<Longrightarrow> \<not> is_dir n (d @ [s]) \<Longrightarrow> \<exists>n'. write_at (d @ [s]) c n = Inr n'"
proof (induction d arbitrary: n)
  case Nil
  then show ?case
    by (cases n) (auto simp: is_dir_def split: option.splits node.splits)
next
  case (Cons t d)
  from Cons.prems(1) obtain es m where n: "n = Dir es" and m: "map_of es t = Some m"
    and dm: "is_dir m d"
    by (cases n) (auto simp: is_dir_def split: option.splits node.splits)
  from Cons.prems(2) n m have "\<not> is_dir m (d @ [s])"
    by (simp add: is_dir_def)
  from Cons.IH [OF dm this] obtain m' where "write_at (d @ [s]) c m = Inr m'" by blast
  with n m show ?case by simp
qed

lemma open_write_succeeds:
  assumes "s \<noteq> []" and "CHR ''/'' \<notin> set s"
    and "is_dir fs (split_path dir)" and "\<not> is_dir fs (split_path dir @ [s])"
  shows "\<exists>fs'. open_write (path_join dir [s]) c fs = (Inr (), fs')"
proof -
  have p: "split_path (path_join dir [s]) = split_path dir @ [s]"
    using assms(1,2) by (rule split_path_join_segment)
  have ne: "path_join dir [s] \<noteq> []"
    using assms(1) by (rule path_join_nonempty)
  from write_at_succeeds [OF assms(3,4)] obtain fs' where
    "write_at (split_path dir @ [s]) c fs = Inr fs'" by blast
  with p ne show ?thesis by (simp add: open_write_def)
qed

subsection \<open>Paths written by the saving functions\<close>











section \<open>The claims of the specification\<close>

subsection \<open>Pruning\<close>

text \<open>
  Once one flag is true the flags play no part: every such call is the call with both
  flags true.
\<close>

lemma clear_flags_ignored:
  "d \<or> f \<Longrightarrow>
     clear_data_and_figure new_path notebook_config d f
       = clear_data_and_figure new_path notebook_config True True"
  by (auto simp: clear_data_and_figure_def)

text \<open>
  Claim C1 says that \<^verbatim>\<open>clear_data_and_figure\<close> with \<^verbatim>\<open>data=True\<close> and
  \<^verbatim>\<open>figure=False\<close> deletes the files of the version in the data directory and leaves
  every file of the figures directory untouched. The code does not do the second part: on
  the example folder the call returns normally and the figure \<^verbatim>\<open>v1_plot.png\<close>, a
  regular file before the call, is gone after it, together with \<^verbatim>\<open>v1_a.pkl\<close>.
\<close>

theorem clear_ignores_figure_flag:
  "file_at example_fs [''tmp'', ''root'', ''exp1'', ''figures'', ''v1_plot.png'']
     = Some (Figure 7 ''png'')
   \<and> clear_data_and_figure (Some ''/tmp/root'') example_config True False example_fs
     = (Inr (),
        Dir [(''tmp'', Dir [(''root'', Dir [(''exp1'',
          Dir [(''data'', Dir [(''v2_a.pkl'', File (Pickle (PyObj 2 False True)))]),
               (''figures'', Dir [])])])])])"
  by code_simp

subsection \<open>The root directory\<close>

text \<open>
  Claim C2 says that with the environment variable unset every operation fails with a
  configuration error. As stated this does not hold: with \<open>new_path = None\<close> the call
  of \<^verbatim>\<open>clear_data_and_figure\<close> with both flags false returns normally.
\<close>

theorem unset_root_noop_clear_succeeds:
  "clear_data_and_figure None example_config False False example_fs = (Inr (), example_fs)"
  by (simp add: clear_data_and_figure_def return_def)

text \<open>
  Claim C2 as amended: with the environment variable unset, every function that joins a
  path fails there with the \<^verbatim>\<open>TypeError\<close> of \<^verbatim>\<open>os.path.join\<close> and leaves the
  file system as it was. These are the three functions that take a folder name and, for a
  notebook configuration with a \<^verbatim>\<open>name\<close>, the artifact functions (pruning with at
  least one flag true). No relative or empty root is used instead.
\<close>

theorem unset_root_raises_TypeError:
  "load_configs None folder_name config_suffix fs = (Inl TypeError, fs)
   \<and> save_configs None folder_name config config_suffix fs = (Inl TypeError, fs)
   \<and> initialise_config None folder_name fs = (Inl TypeError, fs)
   \<and> (notebook_config ''name'' \<noteq> None \<longrightarrow>
         save_figure None notebook_config fig name fmt fs = (Inl TypeError, fs)
       \<and> save_data None notebook_config x name fmt fs = (Inl TypeError, fs)
       \<and> load_data None notebook_config name fmt fs = (Inl TypeError, fs)
       \<and> (d \<or> f \<longrightarrow>
             clear_data_and_figure None notebook_config d f fs = (Inl TypeError, fs)))"
  by (auto simp: load_configs_def save_configs_def initialise_config_def save_figure_def
                 save_data_def load_data_def clear_data_and_figure_def
                 os_path_join_def dict_getitem_def io_defs Let_def)

theorem unset_root_raises_TypeError_witness:
  "save_figure None example_config (7::nat) ''plot'' ''png'' example_fs = (Inl TypeError, example_fs)
   \<and> save_data None example_config (PyObj 1 False True) ''plot'' ''png'' example_fs
        = (Inl TypeError, example_fs)
   \<and> load_data None example_config ''plot'' ''png'' example_fs = (Inl TypeError, example_fs)
   \<and> clear_data_and_figure None example_config True False example_fs
        = (Inl TypeError, example_fs)"
proof -
  have n: "example_config ''name'' \<noteq> None" by (simp add: example_config_def)
  from unset_root_raises_TypeError
         [where notebook_config = example_config and fs = example_fs and fig = 7
            and x = "PyObj 1 False True" and name = "''plot''" and fmt = "''png''"
            and d = True and f = False and folder_name = "''exp1''"
            and config_suffix = "''v1''" and config = example_doc]
  show ?thesis using n by simp
qed

subsection \<open>Versions\<close>



subsection \<open>Initialisation\<close>

text \<open>
  Claim C4: \<^verbatim>\<open>initialise_config\<close> is idempotent. After a call that returned, a second
  call with the same folder name returns as well and leaves the file system exactly as the
  first call left it.
\<close>

theorem initialise_config_idempotent:
  assumes "initialise_config new_path folder_name fs = (Inr (), fs')"
  shows "initialise_config new_path folder_name fs' = (Inr (), fs')"
proof -
  from assms obtain r where r: "new_path = Some r"
    by (cases new_path) (auto simp: initialise_config_def os_path_join_def io_defs)
  define folder_path where "folder_path = path_join r [folder_name]"
  have again: "os_path_exists folder_path fs' \<Longrightarrow> ?thesis"
    by (simp add: initialise_config_def os_path_join_def io_defs r folder_path_def)
  show ?thesis
  proof (cases "os_path_exists folder_path fs")
    case True
    with assms have "fs' = fs"
      by (simp add: initialise_config_def os_path_join_def io_defs r folder_path_def)
    with True again show ?thesis by simp
  next
    case False
    with assms obtain fs1 fs2 where
      m1: "os_makedirs folder_path fs = (Inr (), fs1)" and
      m2: "os_makedirs (path_join folder_path [''data'']) fs1 = (Inr (), fs2)" and
      m3: "os_makedirs (path_join folder_path [''figures'']) fs2 = (Inr (), fs')"
      by (auto simp: initialise_config_def os_path_join_def io_defs r folder_path_def
               split: prod.splits sum.splits)
    have "os_path_exists folder_path fs1"
      by (rule os_path_exists_after_makedirs(1) [OF m1])
    then have "os_path_exists folder_path fs2"
      by (rule os_path_exists_makedirs_mono [OF m2])
    then have "os_path_exists folder_path fs'"
      by (rule os_path_exists_makedirs_mono [OF m3])
    then show ?thesis by (rule again)
  qed
qed

theorem initialise_config_idempotent_witness:
  "initialise_config (Some ''/tmp/root'') ''exp1'' fresh_fs = (Inr (), initialised_fs)
   \<and> initialise_config (Some ''/tmp/root'') ''exp1'' initialised_fs = (Inr (), initialised_fs)"
proof -
  have h: "initialise_config (Some ''/tmp/root'') ''exp1'' fresh_fs = (Inr (), initialised_fs)"
    by code_simp
  from initialise_config_idempotent [OF h] h show ?thesis by simp
qed

subsection \<open>Round trips\<close>

text \<open>
  The saving functions return on an initialised folder: \<^verbatim>\<open>save_configs\<close> when the
  experiment folder is a directory, \<^verbatim>\<open>save_data\<close> with format \<^verbatim>\<open>pkl\<close> when the
  data directory is one and the object can be pickled, each for a file name without
  separator that is not the name of a directory. So the round trips below are not about
  calls that never return.
\<close>

lemma save_configs_succeeds:
  assumes "CHR ''/'' \<notin> set config_suffix"
    and "is_dir fs (split_path (path_join r [folder_name]))"
    and "\<not> is_dir fs (split_path (path_join r [folder_name])
                         @ [''config_'' @ config_suffix @ ''.yml''])"
  shows "\<exists>fs'. save_configs (Some r) folder_name config config_suffix fs = (Inr (), fs')"
proof -
  have "\<exists>fs'. open_write (path_join (path_join r [folder_name])
                  [''config_'' @ config_suffix @ ''.yml'']) (yaml_dump config False) fs
               = (Inr (), fs')"
    using assms by (intro open_write_succeeds) auto
  then show ?thesis
    by (simp add: save_configs_def os_path_join_def io_defs path_join_two)
qed

lemma save_data_pkl_succeeds:
  assumes "notebook_config ''name'' = Some n" and "picklable x"
    and "CHR ''/'' \<notin> set (dict_get notebook_config ''version'' ''v1'')"
    and "CHR ''/'' \<notin> set data_name"
    and "is_dir fs (split_path (path_join r [n, ''data'']))"
    and "\<not> is_dir fs (split_path (path_join r [n, ''data''])
             @ [dict_get notebook_config ''version'' ''v1'' @ ''_'' @ data_name @ ''.'' @ ''pkl''])"
  shows "\<exists>fs'. save_data (Some r) notebook_config x data_name ''pkl'' fs = (Inr (), fs')"
proof -
  define data_path where "data_path = path_join r [n, ''data'']"
  have ex: "os_path_exists data_path fs"
    using assms(5) path_join_nonempty [of "''data''" "path_join r [n]"]
    by (auto simp: os_path_exists_def is_dir_def data_path_def path_join_two
             split: option.splits)
  have "\<exists>fs'. open_write (path_join data_path
            [dict_get notebook_config ''version'' ''v1'' @ ''_'' @ data_name @ ''.'' @ ''pkl''])
            (Pickle x) fs = (Inr (), fs')"
    using assms(3-6) unfolding data_path_def by (intro open_write_succeeds) auto
  with ex assms(1,2) show ?thesis
    by (simp add: save_data_def dict_getitem_def os_path_join_def io_defs Let_def
                  pickle_dump_def data_path_def)
qed

text \<open>
  The order of the keys is kept because the source passes \<^verbatim>\<open>sort_keys=False\<close>; the
  default would write the example document with its keys reordered.
\<close>

lemma sort_keys_would_reorder:
  "(yaml_dump example_doc True :: nat content) \<noteq> yaml_dump example_doc False"
  by code_simp

text \<open>
  Claim C5: after \<^verbatim>\<open>save_configs\<close> has written a configuration document,
  \<^verbatim>\<open>load_configs\<close> with the same folder name and suffix returns that document, its
  keys in the same order and with equal values, and changes nothing.
\<close>

theorem config_round_trip:
  assumes "save_configs new_path folder_name config config_suffix fs = (Inr (), fs')"
  shows "load_configs new_path folder_name config_suffix fs' = (Inr config, fs')"
proof -
  from assms obtain r where r: "new_path = Some r"
    by (cases new_path) (auto simp: save_configs_def os_path_join_def io_defs)
  define config_path where
    "config_path = path_join r [folder_name, ''config_'' @ config_suffix @ ''.yml'']"
  from assms have "open_write config_path (YamlText config) fs = (Inr (), fs')"
    by (simp add: save_configs_def os_path_join_def io_defs r config_path_def yaml_dump_def)
  from open_write_then_read(1) [OF this] show ?thesis
    by (simp add: load_configs_def os_path_join_def io_defs r config_path_def yaml_safe_load_def)
qed

theorem config_round_trip_witness:
  "\<exists>fs'. save_configs (Some ''/tmp/root'') ''exp1'' example_doc ''v1'' initialised_fs
           = (Inr (), fs')
       \<and> load_configs (Some ''/tmp/root'') ''exp1'' ''v1'' fs' = (Inr example_doc, fs')"
proof -
  have h: "save_configs (Some ''/tmp/root'') ''exp1'' example_doc ''v1'' initialised_fs
             = (Inr (), Dir [(''tmp'', Dir [(''root'', Dir [(''exp1'',
                  Dir [(''data'', Dir []), (''figures'', Dir []),
                       (''config_v1.yml'', File (YamlText example_doc))])])])])"
    by code_simp
  from config_round_trip [OF h] h show ?thesis by blast
qed

text \<open>
  Claim C6: after \<^verbatim>\<open>save_data\<close> has pickled an object, \<^verbatim>\<open>load_data\<close> with the
  same notebook configuration, name and format \<^verbatim>\<open>pkl\<close> returns an equal object.
\<close>

theorem pickle_round_trip:
  assumes "save_data new_path notebook_config x data_name ''pkl'' fs = (Inr (), fs')"
  shows "load_data new_path notebook_config data_name ''pkl'' fs' = (Inr (Unpickled x), fs')"
proof -
  from assms obtain n where n: "notebook_config ''name'' = Some n"
    by (cases "notebook_config ''name''") (auto simp: save_data_def dict_getitem_def io_defs)
  from assms n obtain r where r: "new_path = Some r"
    by (cases new_path) (auto simp: save_data_def dict_getitem_def os_path_join_def io_defs)
  define data_path where "data_path = path_join r [n, ''data'']"
  define data_file_path where
    "data_file_path = path_join data_path
       [dict_get notebook_config ''version'' ''v1'' @ ''_'' @ data_name @ ''.'' @ ''pkl'']"
  from assms obtain fs1 where
    d: "pickle_dump x data_file_path fs1 = (Inr (), fs')"
    by (auto simp: save_data_def dict_getitem_def os_path_join_def io_defs n r Let_def
                   data_path_def data_file_path_def split: prod.splits sum.splits if_splits)
  then have w: "open_write data_file_path (Pickle x) fs1 = (Inr (), fs')"
    by (auto simp: pickle_dump_def io_defs split: if_splits prod.splits sum.splits)
  from open_write_then_read [OF w] show ?thesis
    by (simp add: load_data_def dict_getitem_def os_path_join_def io_defs n r Let_def
                  data_path_def data_file_path_def pickle_load_def)
qed

theorem pickle_round_trip_witness:
  "\<exists>fs'. save_data (Some ''/tmp/root'') example_config (PyObj (123::nat) False True) ''res''
             ''pkl'' fresh_fs = (Inr (), fs')
       \<and> load_data (Some ''/tmp/root'') example_config ''res'' ''pkl'' fs'
           = (Inr (Unpickled (PyObj 123 False True)), fs')"
proof -
  have h: "save_data (Some ''/tmp/root'') example_config (PyObj (123::nat) False True) ''res''
             ''pkl'' fresh_fs
           = (Inr (), Dir [(''tmp'', Dir [(''root'', Dir [(''exp1'',
                Dir [(''data'',
                  Dir [(''v1_res.pkl'', File (Pickle (PyObj 123 False True)))])])])])])"
    by code_simp
  from pickle_round_trip [OF h] h show ?thesis by blast
qed

subsection \<open>Errors\<close>

text \<open>
  Claim C7: a \<^verbatim>\<open>save_data\<close> call with a format other than \<^verbatim>\<open>pkl\<close> and
  \<^verbatim>\<open>csv\<close> fails and creates no file: the call always raises, no regular file
  anywhere differs after it, and for a call that gets as far as the format (root set,
  \<^verbatim>\<open>name\<close> present, data directory there or creatable) the exception is the
  \<^verbatim>\<open>ValueError\<close> for an unsupported format.
\<close>

theorem save_data_unsupported_format:
  assumes "data_format \<noteq> ''pkl''" and "data_format \<noteq> ''csv''"
  shows "(\<exists>e. fst (save_data new_path notebook_config x data_name data_format fs) = Inl e)
       \<and> (\<forall>q. file_at (snd (save_data new_path notebook_config x data_name data_format fs)) q
                 = file_at fs q)
       \<and> (\<forall>r n. new_path = Some r \<longrightarrow> notebook_config ''name'' = Some n \<longrightarrow>
             (os_path_exists (path_join r [n, ''data'']) fs
                \<or> fst (os_makedirs (path_join r [n, ''data'']) fs) = Inr ()) \<longrightarrow>
             fst (save_data new_path notebook_config x data_name data_format fs)
               = Inl (ValueError msg_unsupported_format))"
proof (cases "notebook_config ''name''")
  case None
  then show ?thesis
    by (simp add: save_data_def dict_getitem_def io_defs)
next
  case (Some n)
  show ?thesis
  proof (cases new_path)
    case None
    with Some show ?thesis
      by (simp add: save_data_def dict_getitem_def os_path_join_def io_defs)
  next
    case r: (Some r)
    define data_path where "data_path = path_join r [n, ''data'']"
    show ?thesis
    proof (cases "os_path_exists data_path fs")
      case True
      with Some r assms show ?thesis
        by (simp add: save_data_def dict_getitem_def os_path_join_def io_defs Let_def
                      data_path_def)
    next
      case False
      show ?thesis
      proof (cases rule: os_makedirs_cases [of data_path fs])
        case (1 e)
        with False Some r assms show ?thesis
          by (simp add: save_data_def dict_getitem_def os_path_join_def io_defs Let_def
                        data_path_def)
      next
        case (2 fs1)
        have "file_at fs1 q = file_at fs q" for q
          using file_at_os_makedirs [of data_path fs q] 2 by simp
        with 2 False Some r assms show ?thesis
          by (simp add: save_data_def dict_getitem_def os_path_join_def io_defs Let_def
                        data_path_def)
      qed
    qed
  qed
qed

theorem save_data_unsupported_format_witness:
  "fst (save_data (Some ''/tmp/root'') example_config (PyObj (5::nat) False True) ''res''
          ''json'' initialised_fs)
     = Inl (ValueError msg_unsupported_format)
   \<and> file_at (snd (save_data (Some ''/tmp/root'') example_config (PyObj 5 False True) ''res''
                      ''json'' initialised_fs))
        [''tmp'', ''root'', ''exp1'', ''data'', ''v1_res.json'']
     = None"
proof -
  have f: "''json'' \<noteq> ''pkl''" "''json'' \<noteq> ''csv''" by simp_all
  have n: "example_config ''name'' = Some ''exp1''" by (simp add: example_config_def)
  have e: "os_path_exists (path_join ''/tmp/root'' [''exp1'', ''data'']) initialised_fs"
    by code_simp
  have z: "file_at initialised_fs [''tmp'', ''root'', ''exp1'', ''data'', ''v1_res.json''] = None"
    by code_simp
  from save_data_unsupported_format
         [OF f, where new_path = "Some ''/tmp/root''" and notebook_config = example_config
            and x = "PyObj 5 False True" and data_name = "''res''" and fs = initialised_fs]
  show ?thesis using n e z by simp
qed

text \<open>
  Claim C8: a \<^verbatim>\<open>load_data\<close> call whose resolved artifact path does not exist fails
  with \<^verbatim>\<open>FileNotFoundError\<close>.
\<close>

theorem load_data_not_found:
  assumes "new_path = Some r" and "notebook_config ''name'' = Some n"
    and "\<not> os_path_exists
            (path_join (path_join r [n, ''data''])
               [dict_get notebook_config ''version'' ''v1'' @ ''_'' @ data_name @ ''.'' @ data_format])
            fs"
  shows "load_data new_path notebook_config data_name data_format fs = (Inl FileNotFoundError, fs)"
  using assms
  by (simp add: load_data_def dict_getitem_def os_path_join_def io_defs Let_def)

theorem load_data_not_found_witness:
  "load_data (Some ''/tmp/root'') example_config ''ghost'' ''pkl'' example_fs
     = (Inl FileNotFoundError, example_fs)"
proof -
  have n: "example_config ''name'' = Some ''exp1''" by (simp add: example_config_def)
  have e: "\<not> os_path_exists
              (path_join (path_join ''/tmp/root'' [''exp1'', ''data''])
                 [dict_get example_config ''version'' ''v1'' @ ''_'' @ ''ghost'' @ ''.'' @ ''pkl''])
              example_fs"
    by code_simp
  from load_data_not_found [OF refl n e] show ?thesis .
qed

text \<open>
  Claim C9: with a notebook configuration that has no key \<^verbatim>\<open>name\<close>, each artifact
  function (pruning with at least one flag true) raises \<^verbatim>\<open>KeyError\<close>, whatever the
  root and the file system are, and the file system is as it was.
\<close>

theorem missing_name_raises_KeyError:
  assumes "notebook_config ''name'' = None"
  shows "save_figure new_path notebook_config fig fig_name fig_format fs
           = (Inl (KeyError ''name''), fs)
       \<and> save_data new_path notebook_config data data_name data_format fs
           = (Inl (KeyError ''name''), fs)
       \<and> load_data new_path notebook_config data_name data_format fs
           = (Inl (KeyError ''name''), fs)
       \<and> (d \<or> f \<longrightarrow>
             clear_data_and_figure new_path notebook_config d f fs
               = (Inl (KeyError ''name''), fs))"
  using assms
  by (simp add: save_figure_def save_data_def load_data_def clear_data_and_figure_def
                io_defs dict_getitem_def)

theorem missing_name_raises_KeyError_witness:
  "save_figure (Some ''/tmp/root'') [''version'' \<mapsto> ''v1''] (7::nat) ''plot'' ''png'' example_fs
     = (Inl (KeyError ''name''), example_fs)
   \<and> save_data (Some ''/tmp/root'') [''version'' \<mapsto> ''v1''] (PyObj 1 False True) ''a'' ''pkl''
       example_fs
     = (Inl (KeyError ''name''), example_fs)
   \<and> load_data (Some ''/tmp/root'') [''version'' \<mapsto> ''v1''] ''a'' ''pkl'' example_fs
     = (Inl (KeyError ''name''), example_fs)
   \<and> clear_data_and_figure (Some ''/tmp/root'') [''version'' \<mapsto> ''v1''] True False example_fs
     = (Inl (KeyError ''name''), example_fs)"
proof -
  have h: "[''version'' \<mapsto> ''v1''] ''name'' = None" by simp
  note t = missing_name_raises_KeyError
         [where notebook_config = "[''version'' \<mapsto> ''v1'']" and fs = example_fs
            and new_path = "Some ''/tmp/root''" and d = True and f = False]
  from t [OF h, where fig = 7 and fig_name = "''plot''" and fig_format = "''png''"]
       t [OF h, where data = "PyObj 1 False True" and data_name = "''a''"
            and data_format = "''pkl''"]
  show ?thesis by simp
qed

text \<open>
  Claim C10: when \<^verbatim>\<open>save_data\<close> fails with one of its two \<^verbatim>\<open>ValueError\<close>s and
  the data directory did not exist before the call, the directory exists after it: the
  exception does not undo its creation.
\<close>

theorem save_data_error_keeps_directory:
  assumes "new_path = Some r" and "notebook_config ''name'' = Some n"
    and "fst (save_data new_path notebook_config x data_name data_format fs) = Inl (ValueError m)"
    and "\<not> os_path_exists (path_join r [n, ''data'']) fs"
  shows "is_dir (snd (save_data new_path notebook_config x data_name data_format fs))
           (split_path (path_join r [n, ''data'']))"
proof -
  define data_path where "data_path = path_join r [n, ''data'']"
  show ?thesis
  proof (cases rule: os_makedirs_cases [of data_path fs])
    case (1 e)
    with assms have "e = ValueError m"
      by (simp add: save_data_def dict_getitem_def os_path_join_def io_defs Let_def
                    data_path_def)
    with os_makedirs_error [OF 1] have False by simp
    then show ?thesis ..
  next
    case (2 fs1)
    have dir: "is_dir fs1 (split_path data_path)"
      by (rule os_path_exists_after_makedirs(2) [OF 2])
    have "snd (save_data new_path notebook_config x data_name data_format fs) = fs1"
      using assms 2
      by (auto simp: save_data_def dict_getitem_def os_path_join_def io_defs Let_def
                    data_path_def pickle_dump_def to_csv_def open_write_def
               split: if_splits sum.splits prod.splits)
    with dir show ?thesis by (simp add: data_path_def)
  qed
qed

theorem save_data_error_keeps_directory_witness:
  "is_dir (snd (save_data (Some ''/tmp/root'') example_config (PyObj (5::nat) False True) ''res''
                  ''json'' fresh_fs))
     (split_path (path_join ''/tmp/root'' [''exp1'', ''data'']))"
proof -
  have n: "example_config ''name'' = Some ''exp1''" by (simp add: example_config_def)
  have v: "fst (save_data (Some ''/tmp/root'') example_config (PyObj (5::nat) False True) ''res''
                  ''json'' fresh_fs) = Inl (ValueError msg_unsupported_format)"
    by code_simp
  have e: "\<not> os_path_exists (path_join ''/tmp/root'' [''exp1'', ''data'']) fresh_fs"
    by code_simp
  from save_data_error_keeps_directory [OF refl n v e] show ?thesis .
qed

end
